theory Spec2Isabelle
  imports Complex_Main
begin

section \<open>Values shared by all components of \<open>render.js\<close>\<close>

text \<open>
  JavaScript strings are modelled as \<open>string\<close>, byte buffers as \<open>string\<close> too.
  \<open>null\<close> and \<open>undefined\<close> are \<open>None\<close> of an option type. Numbers are values of the type
  \<open>number\<close> below.
\<close>

type_synonym bytes = string

subsection \<open>Numbers\<close>

text \<open>
  A JavaScript number is \<open>NaN\<close>, one of the two infinities, or a finite value \<open>Fin r\<close>.
  The two zeros are one value, \<open>Fin 0\<close>: the source never tells them apart.
  Comparisons, \<open>Math.abs\<close> and \<open>Math.max\<close> are exact on doubles. The subtraction of two
  finite values is the exact one, as the double subtraction \<open>zoom - 1\<close> is for the zoom
  levels a viewport library returns.
\<close>

datatype number = NaN | NegInf | PosInf | Fin real

text \<open>\<open>if (x)\<close> on a number: zero and \<open>NaN\<close> are falsy.\<close>

definition truthy :: "number \<Rightarrow> bool" where
  "truthy x = (case x of NaN \<Rightarrow> False | Fin r \<Rightarrow> r \<noteq> 0 | _ \<Rightarrow> True)"

text \<open>\<open>Math.abs(x)\<close>.\<close>

definition Math_abs :: "number \<Rightarrow> number" where
  "Math_abs x = (case x of NaN \<Rightarrow> NaN | Fin r \<Rightarrow> Fin \<bar>r\<bar> | _ \<Rightarrow> PosInf)"

text \<open>
  \<open>x < y\<close>; \<open>x > y\<close> is \<open>js_less y x\<close>. Every comparison with \<open>NaN\<close> is false.
\<close>

fun js_less :: "number \<Rightarrow> number \<Rightarrow> bool" where
  "js_less NaN y = False"
| "js_less x NaN = False"
| "js_less (Fin a) (Fin b) = (a < b)"
| "js_less (Fin a) PosInf = True"
| "js_less (Fin a) NegInf = False"
| "js_less NegInf NegInf = False"
| "js_less NegInf y = True"
| "js_less PosInf y = False"

text \<open>\<open>x - y\<close>.\<close>

fun js_minus :: "number \<Rightarrow> number \<Rightarrow> number" where
  "js_minus NaN y = NaN"
| "js_minus x NaN = NaN"
| "js_minus (Fin a) (Fin b) = Fin (a - b)"
| "js_minus (Fin a) PosInf = NegInf"
| "js_minus (Fin a) NegInf = PosInf"
| "js_minus PosInf PosInf = NaN"
| "js_minus PosInf y = PosInf"
| "js_minus NegInf NegInf = NaN"
| "js_minus NegInf y = NegInf"

text \<open>\<open>Math.max(x, y)\<close>: \<open>NaN\<close> when either argument is.\<close>

definition Math_max :: "number \<Rightarrow> number \<Rightarrow> number" where
  "Math_max x y = (if x = NaN \<or> y = NaN then NaN else if js_less x y then y else x)"

text \<open>
  Interval vocabulary for the statements below: \<open>outside lo hi x\<close> when \<open>x\<close> is a number
  other than \<open>NaN\<close> that lies below \<open>lo\<close> or above \<open>hi\<close>; \<open>inside lo hi x\<close> when \<open>x\<close> is a
  finite number between \<open>lo\<close> and \<open>hi\<close>, the ends included. \<open>NaN\<close> is neither.
\<close>

definition outside :: "real \<Rightarrow> real \<Rightarrow> number \<Rightarrow> bool" where
  "outside lo hi x = (case x of NaN \<Rightarrow> False | Fin r \<Rightarrow> r < lo \<or> hi < r | _ \<Rightarrow> True)"


subsection \<open>Errors\<close>

text \<open>
  An exception is a value of type \<open>error\<close>. \<open>Error m vs\<close> is \<open>new Error(...)\<close> whose
  message is the fixed text \<open>m\<close> of the source's template followed by the interpolated
  numbers \<open>vs\<close>. \<open>TypeError e\<close> is the runtime's \<open>TypeError\<close>; \<open>e\<close> names the expression
  of the source whose evaluation throws (the runtime's own message text is not
  modelled). \<open>ErrorOfValue v\<close> is \<open>new Error(v)\<close> for a parsed value \<open>v\<close> that is not a
  string; its message is \<open>String(v)\<close>. \<open>json\<close> is a value produced by \<open>JSON.parse\<close>; its
  numbers are finite.
\<close>

datatype json =
    JNull
  | JBool bool
  | JNumber real
  | JString string
  | JArray "json list"
  | JObject "(string \<times> json) list"

datatype error = Error string "number list" | TypeError string | ErrorOfValue json

section \<open>URL resolver\<close>

text \<open>\<open>url.startsWith(p)\<close>.\<close>

definition startsWith :: "string \<Rightarrow> string \<Rightarrow> bool" where
  "startsWith p s = (take (length p) s = p)"

text \<open>
  \<open>s.split(sep)\<close> for a non-empty separator: the text is scanned from the left, every
  occurrence of \<open>sep\<close> closes the current piece and the scan goes on behind it.
  \<open>acc\<close> is the current piece, reversed. (Both separators of the source, \<open>'://'\<close> and
  \<open>'/'\<close>, are non-empty.)
\<close>

fun split_from :: "string \<Rightarrow> string \<Rightarrow> string \<Rightarrow> string list" where
  "split_from sep acc [] = [rev acc]"
| "split_from sep acc (c # cs) =
     (if sep \<noteq> [] \<and> take (length sep) (c # cs) = sep
      then rev acc # split_from sep [] (drop (length sep - 1) cs)
      else split_from sep (c # acc) cs)"

definition js_split :: "string \<Rightarrow> string \<Rightarrow> string list" where
  "js_split sep s = split_from sep [] s"

text \<open>
  \<open>const resolveNamefromURL = url => url.split('://')[1].split('/')[0]\<close>.
  Index 1 of the first split is \<open>undefined\<close> when the URL holds no \<open>'://'\<close>, and calling
  \<open>split\<close> on it throws. Index 0 of the second split always exists.
\<close>

definition resolveNamefromURL :: "string \<Rightarrow> error + string" where
  "resolveNamefromURL url =
     (case js_split ''://'' url of
        a # b # rest \<Rightarrow> (case js_split ''/'' b of n # ns \<Rightarrow> Inr n | [] \<Rightarrow> Inr [])
      | _ \<Rightarrow> Inl (TypeError ''url.split(...)[1].split''))"

text \<open>
  Node's \<open>path.format({ root, name, ext })\<close> with neither \<open>dir\<close> nor \<open>base\<close> given: the
  result is \<open>root + name + ext\<close>, and \<open>name + ext\<close> when \<open>root\<close> is null or empty. No
  separator is inserted and the file system is not consulted.
\<close>

definition path_format :: "string option \<Rightarrow> string \<Rightarrow> string \<Rightarrow> string" where
  "path_format rt name ext =
     (case rt of None \<Rightarrow> name @ ext | Some r \<Rightarrow> r @ name @ ext)"

text \<open>
  \<open>const resolveMBTilesURL = (tilePath, url) =>
     path.format({ root: tilePath, name: resolveNamefromURL(url), ext: '.mbtiles' })\<close>
\<close>

definition resolveMBTilesURL :: "string option \<Rightarrow> string \<Rightarrow> error + string" where
  "resolveMBTilesURL tilePath url =
     (case resolveNamefromURL url of
        Inl e \<Rightarrow> Inl e
      | Inr name \<Rightarrow> Inr (path_format tilePath name ''.mbtiles''))"

subsection \<open>The tile pattern\<close>

text \<open>
  \<open>const TILE_REGEXP = RegExp('mbtiles://([^/]+)/(\\d+)/(\\d+)/(\\d+)')\<close>.

  The pattern is a sequence of literals and of greedy one-or-more character classes.
  Every class is followed by a literal \<open>/\<close>, which is outside the class, or by the end of
  the pattern, so a class always takes the longest run of its characters: giving back
  a character would leave a character of the class where \<open>/\<close> is required. \<open>strip_lit\<close>
  matches a literal, \<open>class_plus\<close> a class with \<open>+\<close>; both return the rest of the text.
\<close>

definition is_digit :: "char \<Rightarrow> bool" where
  "is_digit c = (c \<in> set ''0123456789'')"

text \<open>
  A non-empty run of decimal digits: what \<open>\d+\<close> matches as a whole.
\<close>

definition digits :: "string \<Rightarrow> bool" where
  "digits s = (s \<noteq> [] \<and> list_all is_digit s)"

definition not_slash :: "char \<Rightarrow> bool" where
  "not_slash c = (c \<noteq> CHR ''/'')"

definition strip_lit :: "string \<Rightarrow> string \<Rightarrow> string option" where
  "strip_lit p s = (if startsWith p s then Some (drop (length p) s) else None)"

definition class_plus :: "(char \<Rightarrow> bool) \<Rightarrow> string \<Rightarrow> (string \<times> string) option" where
  "class_plus P s =
     (if takeWhile P s = [] then None else Some (takeWhile P s, dropWhile P s))"

text \<open>
  A match that starts at the first character of the text: the list of the whole match
  and the four groups, as \<open>String.prototype.match\<close> returns it.
\<close>

definition tile_match_here :: "string \<Rightarrow> string list option" where
  "tile_match_here s =
     (case strip_lit ''mbtiles://'' s of None \<Rightarrow> None | Some r0 \<Rightarrow>
      case class_plus not_slash r0 of None \<Rightarrow> None | Some (name, r1) \<Rightarrow>
      case strip_lit ''/'' r1 of None \<Rightarrow> None | Some r2 \<Rightarrow>
      case class_plus is_digit r2 of None \<Rightarrow> None | Some (z, r3) \<Rightarrow>
      case strip_lit ''/'' r3 of None \<Rightarrow> None | Some r4 \<Rightarrow>
      case class_plus is_digit r4 of None \<Rightarrow> None | Some (x, r5) \<Rightarrow>
      case strip_lit ''/'' r5 of None \<Rightarrow> None | Some r6 \<Rightarrow>
      case class_plus is_digit r6 of None \<Rightarrow> None | Some (y, r7) \<Rightarrow>
        Some [''mbtiles://'' @ name @ ''/'' @ z @ ''/'' @ x @ ''/'' @ y, name, z, x, y])"

text \<open>
  \<open>url.match(TILE_REGEXP)\<close>: the pattern is not anchored, so the leftmost position at
  which it matches wins; \<open>None\<close> is \<open>null\<close>.
\<close>

fun tile_regexp_match :: "string \<Rightarrow> string list option" where
  "tile_regexp_match [] = tile_match_here []"
| "tile_regexp_match (c # cs) =
     (case tile_match_here (c # cs) of
        Some m \<Rightarrow> Some m
      | None \<Rightarrow> tile_regexp_match cs)"

text \<open>
  The first two lines of \<open>getTile\<close>:
  \<open>const matches = url.match(TILE_REGEXP)\<close>,
  \<open>const [z, x, y] = matches.slice(matches.length - 3, matches.length)\<close>.
  \<open>matches.slice\<close> throws when \<open>matches\<close> is null. A match has five entries, so the last
  three are the groups z, x, y (the digit strings as they stand in the URL).
  The second branch of the inner case is never taken (lemma \<open>tile_regexp_match_length\<close>).
\<close>

definition tile_zxy :: "string \<Rightarrow> error + (string \<times> string \<times> string)" where
  "tile_zxy url =
     (case tile_regexp_match url of
        None \<Rightarrow> Inl (TypeError ''matches.slice'')
      | Some matches \<Rightarrow>
          (case drop (length matches - 3) matches of
             [z, x, y] \<Rightarrow> Inr (z, x, y)
           | _ \<Rightarrow> Inl (TypeError ''[z, x, y]'')))"


section \<open>What the engine's request handler observes\<close>

text \<open>
  The adapters answer through \<open>callback(err, result)\<close> and write to the console. A run
  is the list of these events in the order they happen. \<open>Callback (Some e) None\<close> is
  \<open>callback(e)\<close>, \<open>Callback None (Some r)\<close> is \<open>callback(null, r)\<close>. \<open>Uncaught e\<close> is an
  exception thrown inside a library's asynchronous callback, where no handler of the
  source encloses it.

  \<open>Date s\<close> stands for \<open>new Date(s)\<close>. \<open>Json t\<close> stands for
  \<open>Buffer.from(JSON.stringify(t))\<close>.
\<close>

datatype date = Date string

record tileJSON =
  tilejson :: string
  tiles :: "string list"
  tj_minzoom :: "number option"
  tj_maxzoom :: "number option"
  tj_center :: "number list option"
  tj_bounds :: "number list option"

datatype buffer = Raw bytes | Json tileJSON

record tile_result =
  data :: "buffer option"
  modified :: "date option"
  expires :: "date option"
  etag :: "string option"

definition empty_result :: tile_result where
  "empty_result = \<lparr>data = None, modified = None, expires = None, etag = None\<rparr>"

datatype event =
    ConsoleLog string
  | ConsoleError error
  | Callback "error option" "tile_result option"
  | Uncaught error

section \<open>Local archive adapter\<close>

text \<open>
  The \<open>@mapbox/mbtiles\<close> library is a parameter: \<open>mb_open f\<close> is what
  \<open>new MBTiles(f, (err, mbtiles) => ...)\<close> hands to its callback, \<open>mb_getInfo\<close> and
  \<open>mb_getTile\<close> what \<open>mbtiles.getInfo\<close> and \<open>mbtiles.getTile(z, x, y, ...)\<close> hand to theirs
  (\<open>Inl\<close> the error).
\<close>

record mbtiles_info =
  info_minzoom :: "number option"
  info_maxzoom :: "number option"
  info_center :: "number list option"
  info_bounds :: "number list option"

record 'h MBTiles =
  mb_open :: "string \<Rightarrow> error + 'h"
  mb_getInfo :: "'h \<Rightarrow> error + mbtiles_info"
  mb_getTile :: "'h \<Rightarrow> string \<Rightarrow> string \<Rightarrow> string \<Rightarrow> error + bytes"

text \<open>
  \<open>getTileJSON\<close>. The result is \<open>Inl\<close> when the synchronous part throws, else the
  events of the run.
\<close>

definition getTileJSON :: "'h MBTiles \<Rightarrow> string option \<Rightarrow> string \<Rightarrow> error + event list" where
  "getTileJSON lib tilePath url =
     (case resolveMBTilesURL tilePath url of Inl e \<Rightarrow> Inl e | Inr mbtilesFilename \<Rightarrow>
      case resolveNamefromURL url of Inl e \<Rightarrow> Inl e | Inr service \<Rightarrow>
        Inr (case mb_open lib mbtilesFilename of
               Inl err \<Rightarrow> [Callback (Some err) None]
             | Inr mbtiles \<Rightarrow>
                 (case mb_getInfo lib mbtiles of
                    Inl infoErr \<Rightarrow> [Callback (Some infoErr) None]
                  | Inr info \<Rightarrow>
                      [Callback None (Some (empty_result\<lparr>data := Some (Json
                         \<lparr>tilejson = ''1.0.0'',
                          tiles = [''mbtiles://'' @ service @ ''/{z}/{x}/{y}''],
                          tj_minzoom = info_minzoom info,
                          tj_maxzoom = info_maxzoom info,
                          tj_center = info_center info,
                          tj_bounds = info_bounds info\<rparr>)\<rparr>))])))"

text \<open>
  \<open>getTile\<close>. The diagnostic is
  \<open>`error fetching tile: z:${z} x:${x} y:${y} from ${mbtilesFile}`\<close>;
  \<open>callback(null, {})\<close> hands over a result with no field set.
\<close>

definition tile_diagnostic :: "string \<Rightarrow> string \<Rightarrow> string \<Rightarrow> string \<Rightarrow> string" where
  "tile_diagnostic z x y mbtilesFile =
     ''error fetching tile: z:'' @ z @ '' x:'' @ x @ '' y:'' @ y @ '' from '' @ mbtilesFile"

definition getTile :: "'h MBTiles \<Rightarrow> string option \<Rightarrow> string \<Rightarrow> error + event list" where
  "getTile lib tilePath url =
     (case tile_zxy url of Inl e \<Rightarrow> Inl e | Inr (z, x, y) \<Rightarrow>
      case resolveMBTilesURL tilePath url of Inl e \<Rightarrow> Inl e | Inr mbtilesFile \<Rightarrow>
        Inr (case mb_open lib mbtilesFile of
               Inl err \<Rightarrow> [Callback (Some err) None]
             | Inr mbtiles \<Rightarrow>
                 (case mb_getTile lib mbtiles z x y of
                    Inl tileErr \<Rightarrow>
                      [ConsoleLog (tile_diagnostic z x y mbtilesFile),
                       Callback None (Some empty_result)]
                  | Inr d \<Rightarrow>
                      [Callback None (Some (empty_result\<lparr>data := Some (Raw d)\<rparr>))])))"

section \<open>Remote fetch adapter\<close>

text \<open>
  The \<open>request\<close> library and \<open>JSON.parse\<close> are parameters: \<open>web url\<close> is what
  \<open>webRequest({ url, encoding: null, gzip: true }, (err, res, body) => ...)\<close> hands to its
  callback, \<open>Inl err\<close> or the response with its body; \<open>parse b\<close> is \<open>JSON.parse(b)\<close>,
  \<open>Inl\<close> the \<open>SyntaxError\<close> it throws.
\<close>

record response =
  statusCode :: int
  headers :: "string \<Rightarrow> string option"
  body :: bytes

text \<open>\<open>if (res.headers.h)\<close>: an absent header is \<open>undefined\<close>, the empty string is falsy.\<close>

definition header_truthy :: "string option \<Rightarrow> bool" where
  "header_truthy h = (case h of None \<Rightarrow> False | Some v \<Rightarrow> v \<noteq> [])"

text \<open>
  \<open>JSON.parse(body).message\<close>: reading a property of \<open>null\<close> throws, an object yields
  the field or \<open>undefined\<close>, every other value \<open>undefined\<close>.
\<close>

definition get_message :: "json \<Rightarrow> error + json option" where
  "get_message v =
     (case v of
        JNull \<Rightarrow> Inl (TypeError ''JSON.parse(body).message'')
      | JObject kvs \<Rightarrow> Inr (map_of kvs ''message'')
      | _ \<Rightarrow> Inr None)"

text \<open>\<open>new Error(m)\<close>: the message is \<open>m\<close> itself for a string, empty for \<open>undefined\<close>.\<close>

definition new_Error :: "json option \<Rightarrow> error" where
  "new_Error m =
     (case m of
        None \<Rightarrow> Error [] []
      | Some (JString s) \<Rightarrow> Error s []
      | Some v \<Rightarrow> ErrorOfValue v)"

definition remote_response :: "response \<Rightarrow> tile_result" where
  "remote_response res =
     (let response0 = empty_result;
          response1 = (case headers res ''modified'' of
                         Some v \<Rightarrow> if header_truthy (Some v)
                                   then response0\<lparr>modified := Some (Date v)\<rparr> else response0
                       | None \<Rightarrow> response0);
          response2 = (case headers res ''expires'' of
                         Some v \<Rightarrow> if header_truthy (Some v)
                                   then response1\<lparr>expires := Some (Date v)\<rparr> else response1
                       | None \<Rightarrow> response1);
          response3 = (case headers res ''etag'' of
                         Some v \<Rightarrow> if header_truthy (Some v)
                                   then response2\<lparr>etag := Some v\<rparr> else response2
                       | None \<Rightarrow> response2)
      in response3\<lparr>data := Some (Raw (body res))\<rparr>)"

definition getRemoteTile ::
  "(string \<Rightarrow> error + response) \<Rightarrow> (bytes \<Rightarrow> error + json) \<Rightarrow> string \<Rightarrow> event list" where
  "getRemoteTile web parse url =
     (case web url of
        Inl err \<Rightarrow> [Callback (Some err) None]
      | Inr res \<Rightarrow>
          if statusCode res = 200 then [Callback None (Some (remote_response res))]
          else (case parse (body res) of
                  Inl e \<Rightarrow> [Uncaught e]
                | Inr v \<Rightarrow>
                    (case get_message v of
                       Inl e \<Rightarrow> [Uncaught e]
                     | Inr m \<Rightarrow> [Callback (Some (new_Error m)) None])))"

section \<open>Request dispatcher\<close>

text \<open>
  \<open>mapOptions.request\<close>. \<open>kind\<close> 2 is a source, 3 a tile. What the \<open>switch\<close> throws
  synchronously is caught, written to \<open>console.error\<close> and handed to the callback.
\<close>

record request =
  url :: string
  kind :: int

definition request_handler ::
  "'h MBTiles \<Rightarrow> (string \<Rightarrow> error + response) \<Rightarrow> (bytes \<Rightarrow> error + json) \<Rightarrow>
   string option \<Rightarrow> request \<Rightarrow> event list" where
  "request_handler lib web parse tilePath req =
     (let isMBTiles = startsWith ''mbtiles://'' (url req) in
      case (if kind req = 2 then
              (if isMBTiles then getTileJSON lib tilePath (url req) else Inr [])
            else if kind req = 3 then
              (if isMBTiles then getTile lib tilePath (url req)
               else Inr (getRemoteTile web parse (url req)))
            else Inr []) of
        Inl err \<Rightarrow> [ConsoleError err, Callback (Some err) None]
      | Inr evs \<Rightarrow> evs)"


section \<open>Render orchestrator\<close>

text \<open>
  \<open>const { bounds = null, tilePath = null } = options\<close>,
  \<open>let { center = null, zoom = null } = options\<close>.
\<close>

record options =
  bounds :: "number list option"
  tilePath :: "string option"
  center :: "number list option"
  zoom :: "number option"

text \<open>
  \<open>geoViewport.viewport(bounds, [width, height])\<close> of \<open>@mapbox/geo-viewport\<close> is a
  parameter; it returns an object with the fields \<open>center\<close> and \<open>zoom\<close>.
\<close>

record viewport =
  vp_center :: "number list"
  vp_zoom :: "number"

type_synonym geo_viewport = "number list \<Rightarrow> number list \<Rightarrow> viewport"

text \<open>
  What the engine receives: the tile directory bound into \<open>mapOptions.request\<close>, the
  style given to \<open>map.load\<close>, and the object given to \<open>map.render\<close>.
\<close>

record render_params =
  p_zoom :: "number option"
  p_center :: "number list option"
  p_height :: number
  p_width :: number

record 's engine_call =
  map_tilePath :: "string option"
  loaded_style :: 's
  params :: render_params

text \<open>
  The validation blocks of \<open>render\<close>, in the order of the source; \<open>Some e\<close> is
  \<open>throw e\<close>.
\<close>

definition check_style_size :: "'s option \<Rightarrow> number \<Rightarrow> number \<Rightarrow> error option" where
  "check_style_size style width height =
     (if style = None then Some (Error ''style is a required parameter'' [])
      else if \<not> (truthy width \<and> truthy height) then
        Some (Error ''width and height are required parameters and must be non-zero'' [])
      else None)"

definition check_center :: "number list option \<Rightarrow> error option" where
  "check_center c =
     (case c of
        None \<Rightarrow> None
      | Some cs \<Rightarrow>
          if length cs \<noteq> 2 then
            Some (Error ''Center must be longitude,latitude.  Invalid value found: '' cs)
          else if js_less (Fin 180) (Math_abs (cs ! 0)) then
            Some (Error ''Center longitude is outside world bounds (-180 to 180 deg): '' [cs ! 0])
          else if js_less (Fin 90) (Math_abs (cs ! 1)) then
            Some (Error ''Center latitude is outside world bounds (-90 to 90 deg): '' [cs ! 1])
          else None)"

definition check_zoom :: "number option \<Rightarrow> error option" where
  "check_zoom z =
     (case z of
        None \<Rightarrow> None
      | Some v \<Rightarrow>
          if js_less v (Fin 0) \<or> js_less (Fin 22) v then
            Some (Error ''Zoom level is outside supported range (0-22): '' [v])
          else None)"

definition check_bounds :: "number list option \<Rightarrow> error option" where
  "check_bounds b =
     (case b of
        None \<Rightarrow> None
      | Some bs \<Rightarrow>
          if length bs \<noteq> 4 then
            Some (Error ''Bounds must be west,south,east,north.  Invalid value found: '' bs)
          else None)"

definition validate :: "'s option \<Rightarrow> number \<Rightarrow> number \<Rightarrow> options \<Rightarrow> error option" where
  "validate style width height opts =
     (case check_style_size style width height of Some e \<Rightarrow> Some e | None \<Rightarrow>
      case check_center (center opts) of Some e \<Rightarrow> Some e | None \<Rightarrow>
      case check_zoom (zoom opts) of Some e \<Rightarrow> Some e | None \<Rightarrow>
      check_bounds (bounds opts))"

text \<open>
  \<open>if (bounds !== null && (zoom === null || center === null)) { ... }\<close>: the pair
  (zoom, center) after the block.
\<close>

definition resolve_viewport ::
  "geo_viewport \<Rightarrow> number \<Rightarrow> number \<Rightarrow> options \<Rightarrow> number option \<times> number list option" where
  "resolve_viewport gv width height opts =
     (case bounds opts of
        None \<Rightarrow> (zoom opts, center opts)
      | Some bs \<Rightarrow>
          if zoom opts = None \<or> center opts = None then
            (let viewport = gv bs [width, height]
             in (Some (Math_max (js_minus (vp_zoom viewport) (Fin 1)) (Fin 0)),
                 Some (vp_center viewport)))
          else (zoom opts, center opts))"

text \<open>
  The body of the promise's executor up to the call of \<open>map.render\<close>: \<open>Inl e\<close> when it
  throws \<open>e\<close>, else the call the engine receives.
  Once validation has passed the style is present; the branch for a missing style
  only repeats the first check.
\<close>

definition render_executor ::
  "geo_viewport \<Rightarrow> 's option \<Rightarrow> number \<Rightarrow> number \<Rightarrow> options \<Rightarrow> error + 's engine_call" where
  "render_executor gv style width height opts =
     (case validate style width height opts of
        Some e \<Rightarrow> Inl e
      | None \<Rightarrow>
          (case style of
             None \<Rightarrow> Inl (Error ''style is a required parameter'' [])
           | Some st \<Rightarrow>
               (case resolve_viewport gv width height opts of
                  (z, c) \<Rightarrow>
                    Inr \<lparr>map_tilePath = tilePath opts,
                         loaded_style = st,
                         params = \<lparr>p_zoom = z, p_center = c,
                                   p_height = height, p_width = width\<rparr>\<rparr>)))"

text \<open>
  The callback given to \<open>map.render\<close>:
  \<open>(err, buffer) => { if (err) throw err; return sharp(buffer, ...).png().toBuffer().then(resolve) }\<close>.
  The encoder \<open>sharp\<close> is a parameter. \<open>Throws e\<close>: the callback throws; \<open>Resolves b\<close>: the
  encoder's promise is fulfilled and \<open>resolve\<close> is called with \<open>b\<close>; \<open>Encoder_rejects e\<close>:
  the encoder's promise is rejected and \<open>resolve\<close> is not called.
\<close>

datatype callback_result = Throws error | Resolves bytes | Encoder_rejects error

definition render_callback ::
  "(bytes \<Rightarrow> number \<Rightarrow> number \<Rightarrow> error + bytes) \<Rightarrow> number \<Rightarrow> number \<Rightarrow> error + bytes \<Rightarrow>
   callback_result" where
  "render_callback sharp width height r =
     (case r of
        Inl err \<Rightarrow> Throws err
      | Inr buffer \<Rightarrow>
          (case sharp buffer width height of
             Inl e \<Rightarrow> Encoder_rejects e
           | Inr png \<Rightarrow> Resolves png))"

text \<open>
  \<open>render = (style, width, height, options) => new Promise((resolve) => { ... })\<close>.

  The executor receives \<open>resolve\<close> only. An exception thrown while the executor runs
  rejects the promise. The engine's \<open>map.render\<close> is asynchronous: it calls its callback
  after the executor has returned, so an exception thrown by the callback is not
  thrown inside the executor; it stays uncaught and the promise keeps its state. The
  promise is fulfilled when \<open>resolve\<close> is called. \<open>engine c\<close> is what the engine hands to
  the callback of the call \<open>c\<close>, \<open>Inl\<close> its error.
  The constructor \<open>new mbgl.Map\<close> and \<open>map.load\<close> are taken to return normally.
  \<open>uncaught\<close> lists the errors that no handler of the source receives: what the
  callback throws, and the rejection of the encoder's promise, which has no handler.
\<close>

datatype promise = Pending | Fulfilled bytes | Rejected error

record 's outcome =
  engine_calls :: "'s engine_call list"
  promise_state :: promise
  uncaught :: "error list"

definition render ::
  "geo_viewport \<Rightarrow> ('s engine_call \<Rightarrow> error + bytes) \<Rightarrow>
   (bytes \<Rightarrow> number \<Rightarrow> number \<Rightarrow> error + bytes) \<Rightarrow>
   's option \<Rightarrow> number \<Rightarrow> number \<Rightarrow> options \<Rightarrow> 's outcome" where
  "render gv engine sharp style width height opts =
     (case render_executor gv style width height opts of
        Inl e \<Rightarrow> \<lparr>engine_calls = [], promise_state = Rejected e, uncaught = []\<rparr>
      | Inr c \<Rightarrow>
          (case render_callback sharp width height (engine c) of
             Throws err \<Rightarrow>
               \<lparr>engine_calls = [c], promise_state = Pending, uncaught = [err]\<rparr>
           | Resolves png \<Rightarrow>
               \<lparr>engine_calls = [c], promise_state = Fulfilled png, uncaught = []\<rparr>
           | Encoder_rejects e \<Rightarrow>
               \<lparr>engine_calls = [c], promise_state = Pending, uncaught = [e]\<rparr>))"


section \<open>Stand-ins for the external libraries\<close>

text \<open>
  Concrete instances of the parameters, for evaluating the functions above on concrete
  calls: a viewport library that answers zoom 5 around [0, 0] (the fit of the box
  \<open>[-10, -10, 10, 10]\<close> into 512 by 512 pixels), an engine that renders, an engine whose
  render pass fails, and an encoder.
\<close>

definition stub_viewport :: geo_viewport where
  "stub_viewport b d = \<lparr>vp_center = [Fin 0, Fin 0], vp_zoom = Fin 5\<rparr>"

definition stub_engine :: "unit engine_call \<Rightarrow> error + bytes" where
  "stub_engine c = Inr ''rgba''"

definition failing_engine :: "unit engine_call \<Rightarrow> error + bytes" where
  "failing_engine c = Inl (Error ''render failed'' [])"

definition stub_sharp :: "bytes \<Rightarrow> number \<Rightarrow> number \<Rightarrow> error + bytes" where
  "stub_sharp b w h = Inr (''png:'' @ b)"

text \<open>
  A tile directory with the single archive \<open>/tiles/parks.mbtiles\<close>, which holds the
  tile 5/10/12 only; a remote server that answers three URLs; and \<open>JSON.parse\<close> on the
  one body that server sends with an error status.
\<close>

definition stub_archive :: "unit MBTiles" where
  "stub_archive =
     \<lparr>mb_open = (\<lambda>f. if f = ''/tiles/parks.mbtiles'' then Inr ()
                      else Inl (Error ''SQLITE_CANTOPEN: unable to open database file'' [])),
      mb_getInfo = (\<lambda>h. Inr \<lparr>info_minzoom = Some (Fin 0), info_maxzoom = Some (Fin 14),
                               info_center = Some (map Fin [0, 0, 2]),
                               info_bounds = Some (map Fin [-180, -85, 180, 85])\<rparr>),
      mb_getTile = (\<lambda>h z x y. if (z, x, y) = (''5'', ''10'', ''12'') then Inr ''tile-5-10-12''
                              else Inl (Error ''Tile does not exist'' []))\<rparr>"

definition not_found_body :: bytes where
  \<open>not_found_body = ''{"message":"not found"}''\<close>

definition stub_web :: "string \<Rightarrow> error + response" where
  "stub_web u =
     (if u = ''https://tiles.example.org/1/2/3.png'' then
        Inr \<lparr>statusCode = 200,
             headers = [''expires'' \<mapsto> ''Thu, 01 Dec 2030 16:00:00 GMT'', ''etag'' \<mapsto> ''abc''],
             body = ''tile-1-2-3''\<rparr>
      else if u = ''https://tiles.example.org/1/2/4.png'' then
        Inr \<lparr>statusCode = 200, headers = [''etag'' \<mapsto> []], body = ''tile-1-2-4''\<rparr>
      else if u = ''https://tiles.example.org/9/9/9.png'' then
        Inr \<lparr>statusCode = 404, headers = Map.empty, body = not_found_body\<rparr>
      else Inl (Error ''connect ECONNREFUSED'' []))"

definition stub_parse :: "bytes \<Rightarrow> error + json" where
  "stub_parse b =
     (if b = not_found_body then Inr (JObject [(''message'', JString ''not found'')])
      else Inl (Error ''Unexpected token in JSON'' []))"

text \<open>The outcome of a call that is rejected with \<open>e\<close> before the engine is touched.\<close>

definition rejected_with :: "error \<Rightarrow> 's outcome" where
  "rejected_with e = \<lparr>engine_calls = [], promise_state = Rejected e, uncaught = []\<rparr>"

section \<open>Properties of the URL resolver\<close>

lemma split_from_nonempty: "split_from sep acc s \<noteq> []"
  by (induction sep acc s rule: split_from.induct) auto

lemma is_digit_not_slash: "is_digit c \<Longrightarrow> not_slash c"
  by (auto simp: is_digit_def not_slash_def)

lemma digits_not_slash: "digits s \<Longrightarrow> list_all not_slash s"
  by (auto simp: digits_def list_all_iff is_digit_not_slash)

lemma split_scheme_skip:
  "list_all not_slash s \<Longrightarrow>
   t = [] \<or> (\<exists>c t'. t = CHR ''/'' # c # t' \<and> not_slash c) \<Longrightarrow>
   split_from ''://'' acc (s @ t) = split_from ''://'' (rev s @ acc) t"
proof (induction s arbitrary: acc)
  case Nil
  then show ?case by simp
next
  case (Cons a s)
  show ?case
  proof (cases s)
    case Nil
    with Cons.prems show ?thesis by (auto simp: not_slash_def)
  next
    case (Cons b s')
    with Cons.prems have "not_slash b" by simp
    then have "split_from ''://'' acc (a # b # s' @ t) =
        split_from ''://'' (a # acc) (b # s' @ t)"
      by (simp add: not_slash_def)
    then show ?thesis using Cons.IH [of "a # acc"] Cons.prems \<open>s = b # s'\<close> by simp
  qed
qed

lemma split_slash_first:
  "list_all not_slash s \<Longrightarrow>
   split_from ''/'' acc (s @ CHR ''/'' # t) = (rev acc @ s) # split_from ''/'' [] t"
  by (induction s arbitrary: acc) (auto simp: not_slash_def)

lemma split_scheme_tile_url:
  assumes "list_all not_slash s" "digits z" "digits x" "digits y"
  shows "js_split ''://'' (''mbtiles://'' @ s @ ''/'' @ z @ ''/'' @ x @ ''/'' @ y) =
         [''mbtiles'', s @ ''/'' @ z @ ''/'' @ x @ ''/'' @ y]"
proof -
  from assms obtain z0 zs x0 xs y0 ys
    where z: "z = z0 # zs" "not_slash z0" and x: "x = x0 # xs" "not_slash x0"
      and y: "y = y0 # ys" "not_slash y0"
    by (auto simp: digits_def neq_Nil_conv is_digit_not_slash)
  have nz: "list_all not_slash z" and nx: "list_all not_slash x" and ny: "list_all not_slash y"
    using assms by (simp_all add: digits_not_slash)
  have 1: "split_from ''://'' acc (y @ []) = [rev acc @ y]" for acc
    using split_scheme_skip [OF ny, of "[]" acc] by simp
  have 2: "split_from ''://'' acc (x @ ''/'' @ y) = [rev acc @ x @ ''/'' @ y]" for acc
    using split_scheme_skip [OF nx, of "''/'' @ y" acc] y 1 by simp
  have 3: "split_from ''://'' acc (z @ ''/'' @ x @ ''/'' @ y) =
      [rev acc @ z @ ''/'' @ x @ ''/'' @ y]" for acc
    using split_scheme_skip [OF nz, of "''/'' @ x @ ''/'' @ y" acc] x 2 by simp
  have 4: "split_from ''://'' acc (s @ ''/'' @ z @ ''/'' @ x @ ''/'' @ y) =
      [rev acc @ s @ ''/'' @ z @ ''/'' @ x @ ''/'' @ y]" for acc
    using split_scheme_skip [OF assms(1), of "''/'' @ z @ ''/'' @ x @ ''/'' @ y" acc] z 3
    by simp
  show ?thesis
    unfolding js_split_def using 4 [of "[]"] by simp
qed

lemma resolveName_tile_url:
  assumes "list_all not_slash s" "digits z" "digits x" "digits y"
  shows "resolveNamefromURL (''mbtiles://'' @ s @ ''/'' @ z @ ''/'' @ x @ ''/'' @ y) = Inr s"
proof -
  have "js_split ''/'' (s @ ''/'' @ z @ ''/'' @ x @ ''/'' @ y) =
      s # split_from ''/'' [] (z @ ''/'' @ x @ ''/'' @ y)"
    unfolding js_split_def using split_slash_first [OF assms(1), of "[]"] by simp
  then show ?thesis
    unfolding resolveNamefromURL_def split_scheme_tile_url [OF assms] by simp
qed

lemma startsWith_append: "startsWith p u \<Longrightarrow> \<exists>r. u = p @ r"
  unfolding startsWith_def by (metis append_take_drop_id)

lemma resolveName_local:
  assumes "startsWith ''mbtiles://'' u"
  shows "\<exists>n. resolveNamefromURL u = Inr n"
proof -
  from assms obtain r where u: "u = ''mbtiles://'' @ r"
    using startsWith_append by blast
  obtain b rest where "split_from ''://'' [] r = b # rest"
    using split_from_nonempty [of "''://''" "[]" r] by (cases "split_from ''://'' [] r") auto
  then have "js_split ''://'' u = ''mbtiles'' # b # rest"
    unfolding js_split_def u by simp
  then show ?thesis
    unfolding resolveNamefromURL_def by (simp split: list.splits)
qed


lemma strip_lit_append: "strip_lit p (p @ r) = Some r"
  by (simp add: strip_lit_def startsWith_def)

lemma strip_lit_Some: "strip_lit p s = Some r \<Longrightarrow> s = p @ r"
  unfolding strip_lit_def startsWith_def
  by (metis append_take_drop_id option.distinct(1) option.inject)

lemma class_plus_Some: "class_plus P s = Some (a, r) \<Longrightarrow> s = a @ r"
  unfolding class_plus_def
  by (metis Pair_inject option.distinct(1) option.inject takeWhile_dropWhile_id)

lemma class_plus_run:
  "a \<noteq> [] \<Longrightarrow> list_all P a \<Longrightarrow> r = [] \<or> \<not> P (hd r) \<Longrightarrow> class_plus P (a @ r) = Some (a, r)"
proof -
  assume a: "a \<noteq> []" and P: "list_all P a" and r: "r = [] \<or> \<not> P (hd r)"
  from P have t: "takeWhile P a = a" and d: "dropWhile P a = []"
    by (simp_all add: list_all_iff)
  from r have "takeWhile P (a @ r) = a \<and> dropWhile P (a @ r) = r"
    by (cases r) (auto simp: t d takeWhile_tail dropWhile_append3)
  with a show ?thesis by (simp add: class_plus_def)
qed

lemma tile_match_here_tile_url:
  assumes "s \<noteq> []" "list_all not_slash s" "digits z" "digits x" "digits y"
  shows "tile_match_here (''mbtiles://'' @ s @ ''/'' @ z @ ''/'' @ x @ ''/'' @ y) =
     Some [''mbtiles://'' @ s @ ''/'' @ z @ ''/'' @ x @ ''/'' @ y, s, z, x, y]"
proof -
  have slash: "\<not> not_slash (CHR ''/'')" "\<not> is_digit (CHR ''/'')"
    by (simp_all add: not_slash_def is_digit_def)
  have a: "class_plus not_slash (s @ ''/'' @ z @ ''/'' @ x @ ''/'' @ y) =
      Some (s, ''/'' @ z @ ''/'' @ x @ ''/'' @ y)"
    using assms slash by (intro class_plus_run) simp_all
  have b: "class_plus is_digit (z @ ''/'' @ x @ ''/'' @ y) = Some (z, ''/'' @ x @ ''/'' @ y)"
    using assms slash by (intro class_plus_run) (simp_all add: digits_def)
  have c: "class_plus is_digit (x @ ''/'' @ y) = Some (x, ''/'' @ y)"
    using assms slash by (intro class_plus_run) (simp_all add: digits_def)
  have d: "class_plus is_digit (y @ []) = Some (y, [])"
    using assms by (intro class_plus_run) (simp_all add: digits_def)
  have l: "strip_lit ''/'' (''/'' @ r) = Some r" for r
    by (rule strip_lit_append)
  show ?thesis
    unfolding tile_match_here_def
    using a b c d by (simp only: strip_lit_append l option.case prod.case append_Nil2)
qed

lemma tile_regexp_match_here:
  "tile_match_here s = Some m \<Longrightarrow> tile_regexp_match s = Some m"
  by (cases s) simp_all

lemma tile_zxy_tile_url:
  assumes "s \<noteq> []" "list_all not_slash s" "digits z" "digits x" "digits y"
  shows "tile_zxy (''mbtiles://'' @ s @ ''/'' @ z @ ''/'' @ x @ ''/'' @ y) = Inr (z, x, y)"
  unfolding tile_zxy_def
  using tile_regexp_match_here [OF tile_match_here_tile_url [OF assms]] by simp

lemma tile_match_here_slashes:
  assumes "tile_match_here u = Some m"
  shows "5 \<le> count_list u (CHR ''/'')"
proof -
  from assms obtain r0 name r1 r2 z r3 r4 x r5 r6
    where "strip_lit ''mbtiles://'' u = Some r0" "class_plus not_slash r0 = Some (name, r1)"
      "strip_lit ''/'' r1 = Some r2" "class_plus is_digit r2 = Some (z, r3)"
      "strip_lit ''/'' r3 = Some r4" "class_plus is_digit r4 = Some (x, r5)"
      "strip_lit ''/'' r5 = Some r6"
    unfolding tile_match_here_def by (auto split: option.splits)
  then have "u = ''mbtiles://'' @ name @ ''/'' @ z @ ''/'' @ x @ ''/'' @ r6"
    by (auto dest!: strip_lit_Some class_plus_Some)
  then show ?thesis by simp
qed

lemma tile_regexp_match_slashes:
  "tile_regexp_match u = Some m \<Longrightarrow> 5 \<le> count_list u (CHR ''/'')"
proof (induction u)
  case Nil
  then show ?case using tile_match_here_slashes by fastforce
next
  case (Cons c cs)
  show ?case
  proof (cases "tile_match_here (c # cs)")
    case None
    with Cons have "5 \<le> count_list cs (CHR ''/'')" by simp
    then show ?thesis by simp
  next
    case (Some m')
    then show ?thesis by (rule tile_match_here_slashes)
  qed
qed

text \<open>
  A match always has five entries, so the destructuring in \<open>tile_zxy\<close> always finds the
  three groups.
\<close>

lemma tile_match_here_length: "tile_match_here s = Some m \<Longrightarrow> length m = 5"
  by (auto simp: tile_match_here_def split: option.splits)

lemma tile_regexp_match_length: "tile_regexp_match u = Some m \<Longrightarrow> length m = 5"
  by (induction u) (auto simp: tile_match_here_length split: option.splits)

lemma count_slash_free: "list_all not_slash s \<Longrightarrow> count_list s (CHR ''/'') = 0"
  by (induction s) (auto simp: not_slash_def)

lemma count_slash_segments:
  "list_all (list_all not_slash) segs \<Longrightarrow>
   count_list (concat (map ((#) (CHR ''/'')) segs)) (CHR ''/'') = length segs"
  by (induction segs) (auto simp: count_slash_free)

lemma tile_zxy_short_url:
  assumes "list_all not_slash s" "list_all (list_all not_slash) segs" "length segs < 3"
  shows "tile_zxy (''mbtiles://'' @ s @ concat (map ((#) (CHR ''/'')) segs)) =
      Inl (TypeError ''matches.slice'')"
proof -
  have "count_list (''mbtiles://'' @ s @ concat (map ((#) (CHR ''/'')) segs)) (CHR ''/'') =
      2 + length segs"
    using assms by (simp add: count_slash_free count_slash_segments)
  with assms(3) have few:
    "\<not> 5 \<le> count_list (''mbtiles://'' @ s @ concat (map ((#) (CHR ''/'')) segs)) (CHR ''/'')"
    by linarith
  have "tile_regexp_match (''mbtiles://'' @ s @ concat (map ((#) (CHR ''/'')) segs)) = None"
  proof (cases "tile_regexp_match (''mbtiles://'' @ s @ concat (map ((#) (CHR ''/'')) segs))")
    case None
    then show ?thesis .
  next
    case (Some m)
    then show ?thesis using few tile_regexp_match_slashes by blast
  qed
  then show ?thesis by (simp add: tile_zxy_def)
qed

text \<open>
  The resolver on well-formed and on short tile URLs. For every URL
  \<open>mbtiles://service/z/x/y\<close> with a non-empty service name free of \<open>/\<close> and three runs of
  digits, it yields the service name, the three trailing segments as z, x, y, and as
  file path the tile directory, the service name and \<open>.mbtiles\<close> written one after the
  other; no file system takes part. For every URL with fewer than three segments
  behind the service name the pattern does not match, and \<open>getTile\<close> throws before it
  opens anything.
\<close>

lemma url_resolver_tile_url:
  "(service \<noteq> [] \<and> list_all not_slash service \<and> digits z \<and> digits x \<and> digits y \<longrightarrow>
      resolveNamefromURL (''mbtiles://'' @ service @ ''/'' @ z @ ''/'' @ x @ ''/'' @ y)
        = Inr service
      \<and> tile_zxy (''mbtiles://'' @ service @ ''/'' @ z @ ''/'' @ x @ ''/'' @ y)
        = Inr (z, x, y)
      \<and> resolveMBTilesURL base (''mbtiles://'' @ service @ ''/'' @ z @ ''/'' @ x @ ''/'' @ y)
        = Inr ((case base of None \<Rightarrow> [] | Some dir \<Rightarrow> dir) @ service @ ''.mbtiles''))
   \<and> (list_all not_slash service \<and> list_all (list_all not_slash) segs \<and> length segs < 3 \<longrightarrow>
      tile_zxy (''mbtiles://'' @ service @ concat (map ((#) (CHR ''/'')) segs))
        = Inl (TypeError ''matches.slice'')
      \<and> getTile lib base (''mbtiles://'' @ service @ concat (map ((#) (CHR ''/'')) segs))
        = Inl (TypeError ''matches.slice''))"
proof (intro conjI impI)
  assume a: "service \<noteq> [] \<and> list_all not_slash service \<and> digits z \<and> digits x \<and> digits y"
  then have s: "service \<noteq> []" "list_all not_slash service"
    and d: "digits z" "digits x" "digits y"
    by simp_all
  show n: "resolveNamefromURL
      (''mbtiles://'' @ service @ ''/'' @ z @ ''/'' @ x @ ''/'' @ y) = Inr service"
    by (rule resolveName_tile_url [OF s(2) d])
  show "tile_zxy (''mbtiles://'' @ service @ ''/'' @ z @ ''/'' @ x @ ''/'' @ y)
      = Inr (z, x, y)"
    by (rule tile_zxy_tile_url [OF s d])
  from n show "resolveMBTilesURL base
      (''mbtiles://'' @ service @ ''/'' @ z @ ''/'' @ x @ ''/'' @ y)
      = Inr ((case base of None \<Rightarrow> [] | Some dir \<Rightarrow> dir) @ service @ ''.mbtiles'')"
    unfolding resolveMBTilesURL_def by (simp add: path_format_def split: option.splits)
next
  assume b: "list_all not_slash service \<and> list_all (list_all not_slash) segs \<and> length segs < 3"
  then have b': "list_all not_slash service" "list_all (list_all not_slash) segs"
    "length segs < 3"
    by simp_all
  show t: "tile_zxy (''mbtiles://'' @ service @ concat (map ((#) (CHR ''/'')) segs))
      = Inl (TypeError ''matches.slice'')"
    by (rule tile_zxy_short_url [OF b'])
  then show "getTile lib base (''mbtiles://'' @ service @ concat (map ((#) (CHR ''/'')) segs))
      = Inl (TypeError ''matches.slice'')"
    unfolding getTile_def by simp
qed

lemma url_resolver_parks:
  "resolveNamefromURL ''mbtiles://parks/5/10/12'' = Inr ''parks''
   \<and> tile_zxy ''mbtiles://parks/5/10/12'' = Inr (''5'', ''10'', ''12'')
   \<and> resolveMBTilesURL (Some ''/tiles/'') ''mbtiles://parks/5/10/12'' =
       Inr ''/tiles/parks.mbtiles''
   \<and> tile_zxy ''mbtiles://parks/5/10'' = Inl (TypeError ''matches.slice'')
   \<and> getTile stub_archive (Some ''/tiles/'') ''mbtiles://parks/5/10'' =
       Inl (TypeError ''matches.slice'')"
  using url_resolver_tile_url [of "''parks''" "''5''" "''10''" "''12''" "Some ''/tiles/''"
      "[''5'', ''10'']" stub_archive]
  by (simp add: digits_def is_digit_def not_slash_def)

text \<open>
  Claim C7 says that the archive file path joins the configured base directory, the
  service name and the archive extension. The source passes the directory as \<open>root\<close>
  to \<open>path.format\<close>, which puts no separator behind it: for the tile directory
  \<open>/tiles\<close> the URL \<open>mbtiles://parks/5/10/12\<close> resolves to \<open>/tilesparks.mbtiles\<close>, and a
  tile request on it does not find the archive \<open>/tiles/parks.mbtiles\<close> of that directory.
\<close>

theorem C7_archive_path_lacks_separator:
  "resolveNamefromURL ''mbtiles://parks/5/10/12'' = Inr ''parks''
   \<and> tile_zxy ''mbtiles://parks/5/10/12'' = Inr (''5'', ''10'', ''12'')
   \<and> resolveMBTilesURL (Some ''/tiles'') ''mbtiles://parks/5/10/12'' =
       Inr ''/tilesparks.mbtiles''
   \<and> request_handler stub_archive stub_web stub_parse (Some ''/tiles'')
       \<lparr>url = ''mbtiles://parks/5/10/12'', kind = 3\<rparr> =
       [Callback (Some (Error ''SQLITE_CANTOPEN: unable to open database file'' [])) None]
   \<and> request_handler stub_archive stub_web stub_parse (Some ''/tiles/'')
       \<lparr>url = ''mbtiles://parks/5/10/12'', kind = 3\<rparr> =
       [Callback None (Some \<lparr>data = Some (Raw ''tile-5-10-12''), modified = None,
                              expires = None, etag = None\<rparr>)]"
proof -
  have n: "resolveNamefromURL ''mbtiles://parks/5/10/12'' = Inr ''parks''"
    by code_simp
  have z: "tile_zxy ''mbtiles://parks/5/10/12'' = Inr (''5'', ''10'', ''12'')"
    by code_simp
  have s: "startsWith ''mbtiles://'' ''mbtiles://parks/5/10/12''"
    by (simp add: startsWith_def)
  from n have p1: "resolveMBTilesURL (Some ''/tiles'') ''mbtiles://parks/5/10/12'' =
      Inr ''/tilesparks.mbtiles''"
    by (simp add: resolveMBTilesURL_def path_format_def)
  from n have p2: "resolveMBTilesURL (Some ''/tiles/'') ''mbtiles://parks/5/10/12'' =
      Inr ''/tiles/parks.mbtiles''"
    by (simp add: resolveMBTilesURL_def path_format_def)
  have r1: "request_handler stub_archive stub_web stub_parse (Some ''/tiles'')
       \<lparr>url = ''mbtiles://parks/5/10/12'', kind = 3\<rparr> =
       [Callback (Some (Error ''SQLITE_CANTOPEN: unable to open database file'' [])) None]"
    using s z p1 by (simp add: request_handler_def getTile_def stub_archive_def)
  have r2: "request_handler stub_archive stub_web stub_parse (Some ''/tiles/'')
       \<lparr>url = ''mbtiles://parks/5/10/12'', kind = 3\<rparr> =
       [Callback None (Some \<lparr>data = Some (Raw ''tile-5-10-12''), modified = None,
                              expires = None, etag = None\<rparr>)]"
    using s z p2
    by (simp add: request_handler_def getTile_def stub_archive_def empty_result_def)
  from n z p1 r1 r2 show ?thesis by blast
qed

section \<open>Properties of the local archive adapter\<close>

lemma resolveMBTilesURL_local:
  "startsWith ''mbtiles://'' u \<Longrightarrow> \<exists>f. resolveMBTilesURL tp u = Inr f"
  using resolveName_local [of u] by (auto simp: resolveMBTilesURL_def)

text \<open>
  Claim C3. For a tile request on a local URL that resolves to z, x, y and the archive
  file \<open>f\<close>: when \<open>f\<close> fails to open, the callback receives that error and nothing
  is logged; when \<open>f\<close> opens and the lookup of the tile fails, the diagnostic naming
  z, x, y and \<open>f\<close> is logged first and the callback then receives no error and a
  result without data. The two runs differ, and the lookup failure hands over no error.
\<close>

theorem C3_local_tile_failures:
  "startsWith ''mbtiles://'' u \<Longrightarrow> tile_zxy u = Inr (z, x, y) \<Longrightarrow>
   resolveMBTilesURL tp u = Inr f \<Longrightarrow>
   (mb_open lib f = Inl e \<longrightarrow>
      request_handler lib web parse tp \<lparr>url = u, kind = 3\<rparr> = [Callback (Some e) None])
   \<and> (mb_open lib f = Inr a \<and> mb_getTile lib a z x y = Inl te \<longrightarrow>
      request_handler lib web parse tp \<lparr>url = u, kind = 3\<rparr> =
        [ConsoleLog (''error fetching tile: z:'' @ z @ '' x:'' @ x @ '' y:'' @ y
                       @ '' from '' @ f),
         Callback None (Some \<lparr>data = None, modified = None, expires = None, etag = None\<rparr>)])"
  by (simp add: request_handler_def getTile_def tile_diagnostic_def empty_result_def)

theorem C3_local_tile_failures_witness:
  "request_handler stub_archive stub_web stub_parse (Some ''/tiles/'')
       \<lparr>url = ''mbtiles://roads/5/10/12'', kind = 3\<rparr> =
     [Callback (Some (Error ''SQLITE_CANTOPEN: unable to open database file'' [])) None]
   \<and> request_handler stub_archive stub_web stub_parse (Some ''/tiles/'')
       \<lparr>url = ''mbtiles://parks/5/10/13'', kind = 3\<rparr> =
     [ConsoleLog ''error fetching tile: z:5 x:10 y:13 from /tiles/parks.mbtiles'',
      Callback None (Some \<lparr>data = None, modified = None, expires = None, etag = None\<rparr>)]"
proof -
  have s1: "startsWith ''mbtiles://'' ''mbtiles://roads/5/10/12''"
    and s2: "startsWith ''mbtiles://'' ''mbtiles://parks/5/10/13''"
    by (simp_all add: startsWith_def)
  have z1: "tile_zxy ''mbtiles://roads/5/10/12'' = Inr (''5'', ''10'', ''12'')"
    and z2: "tile_zxy ''mbtiles://parks/5/10/13'' = Inr (''5'', ''10'', ''13'')"
    by code_simp+
  have f1: "resolveMBTilesURL (Some ''/tiles/'') ''mbtiles://roads/5/10/12'' =
      Inr ''/tiles/roads.mbtiles''"
    and f2: "resolveMBTilesURL (Some ''/tiles/'') ''mbtiles://parks/5/10/13'' =
      Inr ''/tiles/parks.mbtiles''"
    by code_simp+
  show ?thesis
    using C3_local_tile_failures [OF s1 z1 f1, of stub_archive
        "Error ''SQLITE_CANTOPEN: unable to open database file'' []" stub_web stub_parse]
      C3_local_tile_failures [OF s2 z2 f2, of stub_archive _ stub_web stub_parse "()"
        "Error ''Tile does not exist'' []"]
    by (simp add: stub_archive_def)
qed

section \<open>Properties of the remote fetch adapter\<close>

text \<open>
  Claim C8, as the code has it. A transport error is handed to the callback as it is. A
  response with a status other than 200 whose body parses to an object with a string
  \<open>message\<close> yields an error with that message. A response with status 200 yields a
  result whose data is the body, and whose \<open>modified\<close>, \<open>expires\<close> and \<open>etag\<close> are set
  exactly when the header is present with a non-empty value: the two dates built from
  the header's text, the etag copied.
\<close>

theorem C8_remote_fetch:
  "(web u = Inl err \<longrightarrow> getRemoteTile web parse u = [Callback (Some err) None])
   \<and> (web u = Inr res \<and> statusCode res \<noteq> 200 \<and> parse (body res) = Inr (JObject kvs)
        \<and> map_of kvs ''message'' = Some (JString m) \<longrightarrow>
      getRemoteTile web parse u = [Callback (Some (Error m [])) None])
   \<and> (web u = Inr res \<and> statusCode res = 200 \<longrightarrow>
      getRemoteTile web parse u =
        [Callback None (Some
           \<lparr>data = Some (Raw (body res)),
            modified = (case headers res ''modified'' of
                          None \<Rightarrow> None | Some v \<Rightarrow> if v = [] then None else Some (Date v)),
            expires = (case headers res ''expires'' of
                          None \<Rightarrow> None | Some v \<Rightarrow> if v = [] then None else Some (Date v)),
            etag = (case headers res ''etag'' of
                          None \<Rightarrow> None | Some v \<Rightarrow> if v = [] then None else Some v)\<rparr>)])"
  by (auto simp: getRemoteTile_def get_message_def new_Error_def remote_response_def
        header_truthy_def empty_result_def Let_def split: option.splits)

theorem C8_remote_fetch_witness:
  "getRemoteTile stub_web stub_parse ''https://tiles.example.org/'' =
     [Callback (Some (Error ''connect ECONNREFUSED'' [])) None]
   \<and> getRemoteTile stub_web stub_parse ''https://tiles.example.org/9/9/9.png'' =
     [Callback (Some (Error ''not found'' [])) None]
   \<and> getRemoteTile stub_web stub_parse ''https://tiles.example.org/1/2/3.png'' =
     [Callback None (Some
        \<lparr>data = Some (Raw ''tile-1-2-3''), modified = None,
         expires = Some (Date ''Thu, 01 Dec 2030 16:00:00 GMT''), etag = Some ''abc''\<rparr>)]"
proof -
  have 1: "getRemoteTile stub_web stub_parse ''https://tiles.example.org/'' =
     [Callback (Some (Error ''connect ECONNREFUSED'' [])) None]"
    using C8_remote_fetch [where web = stub_web and parse = stub_parse
        and u = "''https://tiles.example.org/''" and err = "Error ''connect ECONNREFUSED'' []"]
    by (simp add: stub_web_def)
  have 2: "getRemoteTile stub_web stub_parse ''https://tiles.example.org/9/9/9.png'' =
     [Callback (Some (Error ''not found'' [])) None]"
    using C8_remote_fetch [where web = stub_web and parse = stub_parse
        and u = "''https://tiles.example.org/9/9/9.png''"
        and res = "\<lparr>statusCode = 404, headers = Map.empty, body = not_found_body\<rparr>"
        and kvs = "[(''message'', JString ''not found'')]" and m = "''not found''"]
    by (simp add: stub_web_def stub_parse_def)
  have 3: "getRemoteTile stub_web stub_parse ''https://tiles.example.org/1/2/3.png'' =
     [Callback None (Some
        \<lparr>data = Some (Raw ''tile-1-2-3''), modified = None,
         expires = Some (Date ''Thu, 01 Dec 2030 16:00:00 GMT''), etag = Some ''abc''\<rparr>)]"
    using C8_remote_fetch [where web = stub_web and parse = stub_parse
        and u = "''https://tiles.example.org/1/2/3.png''"
        and res = "\<lparr>statusCode = 200,
             headers = [''expires'' \<mapsto> ''Thu, 01 Dec 2030 16:00:00 GMT'', ''etag'' \<mapsto> ''abc''],
             body = ''tile-1-2-3''\<rparr>"]
    by (simp add: stub_web_def)
  from 1 2 3 show ?thesis by blast
qed

text \<open>
  Claim C8 as stated fails: a response whose \<open>etag\<close> header is present with the empty
  value yields a result without \<open>etag\<close>.
\<close>

theorem C8_empty_header_not_copied:
  "stub_web ''https://tiles.example.org/1/2/4.png'' =
     Inr \<lparr>statusCode = 200, headers = [''etag'' \<mapsto> []], body = ''tile-1-2-4''\<rparr>
   \<and> [''etag'' \<mapsto> []] ''etag'' = Some []
   \<and> getRemoteTile stub_web stub_parse ''https://tiles.example.org/1/2/4.png'' =
     [Callback None (Some
        \<lparr>data = Some (Raw ''tile-1-2-4''), modified = None, expires = None, etag = None\<rparr>)]"
  by (simp add: getRemoteTile_def remote_response_def header_truthy_def empty_result_def
      stub_web_def)

section \<open>Properties of the request dispatcher\<close>

lemma getTileJSON_local:
  "startsWith ''mbtiles://'' u \<Longrightarrow> \<exists>evs. getTileJSON lib tp u = Inr evs"
  using resolveName_local [of u]
  by (auto simp: getTileJSON_def resolveMBTilesURL_def)

text \<open>
  Claim C5. A source request on a local URL runs the metadata lookup, whose
  synchronous part cannot throw on such a URL; a source request on any other URL does
  nothing. A tile request on a local URL runs the local tile lookup, and what that
  throws synchronously is logged and handed to the callback as its error; a tile
  request on any other URL runs the remote fetch. Every other kind does nothing. The
  handler returns its events in each case: no exception leaves it.
\<close>

theorem C5_routing:
  "(kind req = 2 \<and> startsWith ''mbtiles://'' (url req) \<longrightarrow>
      getTileJSON lib tp (url req) = Inr (request_handler lib web parse tp req))
   \<and> (kind req = 2 \<and> \<not> startsWith ''mbtiles://'' (url req) \<longrightarrow>
      request_handler lib web parse tp req = [])
   \<and> (kind req = 3 \<and> startsWith ''mbtiles://'' (url req) \<longrightarrow>
      request_handler lib web parse tp req =
        (case getTile lib tp (url req) of
           Inr evs \<Rightarrow> evs
         | Inl err \<Rightarrow> [ConsoleError err, Callback (Some err) None]))
   \<and> (kind req = 3 \<and> \<not> startsWith ''mbtiles://'' (url req) \<longrightarrow>
      request_handler lib web parse tp req = getRemoteTile web parse (url req))
   \<and> (kind req \<noteq> 2 \<and> kind req \<noteq> 3 \<longrightarrow> request_handler lib web parse tp req = [])"
proof (intro conjI impI)
  assume a: "kind req = 2 \<and> startsWith ''mbtiles://'' (url req)"
  then obtain evs where "getTileJSON lib tp (url req) = Inr evs"
    using getTileJSON_local by blast
  with a show "getTileJSON lib tp (url req) = Inr (request_handler lib web parse tp req)"
    by (simp add: request_handler_def)
qed (auto simp: request_handler_def split: sum.splits)

theorem C5_routing_witness:
  "getTileJSON stub_archive (Some ''/tiles/'') ''mbtiles://parks'' =
     Inr (request_handler stub_archive stub_web stub_parse (Some ''/tiles/'')
            \<lparr>url = ''mbtiles://parks'', kind = 2\<rparr>)
   \<and> request_handler stub_archive stub_web stub_parse (Some ''/tiles/'')
        \<lparr>url = ''https://tiles.example.org/tiles.json'', kind = 2\<rparr> = []
   \<and> request_handler stub_archive stub_web stub_parse (Some ''/tiles/'')
        \<lparr>url = ''mbtiles://parks/5/10/12'', kind = 3\<rparr> =
      [Callback None (Some \<lparr>data = Some (Raw ''tile-5-10-12''), modified = None,
                             expires = None, etag = None\<rparr>)]
   \<and> request_handler stub_archive stub_web stub_parse (Some ''/tiles/'')
        \<lparr>url = ''mbtiles://parks/5/10'', kind = 3\<rparr> =
      [ConsoleError (TypeError ''matches.slice''),
       Callback (Some (TypeError ''matches.slice'')) None]
   \<and> request_handler stub_archive stub_web stub_parse (Some ''/tiles/'')
        \<lparr>url = ''https://tiles.example.org/9/9/9.png'', kind = 3\<rparr> =
      getRemoteTile stub_web stub_parse ''https://tiles.example.org/9/9/9.png''
   \<and> request_handler stub_archive stub_web stub_parse (Some ''/tiles/'')
        \<lparr>url = ''mbtiles://parks/5/10/12'', kind = 4\<rparr> = []"
proof -
  note T = C5_routing [where lib = stub_archive and web = stub_web and parse = stub_parse
      and tp = "Some ''/tiles/''"]
  have g1: "getTile stub_archive (Some ''/tiles/'') ''mbtiles://parks/5/10/12'' =
      Inr [Callback None (Some \<lparr>data = Some (Raw ''tile-5-10-12''), modified = None,
                             expires = None, etag = None\<rparr>)]"
    by code_simp
  have g2: "getTile stub_archive (Some ''/tiles/'') ''mbtiles://parks/5/10'' =
      Inl (TypeError ''matches.slice'')"
    by code_simp
  have 1: "getTileJSON stub_archive (Some ''/tiles/'') ''mbtiles://parks'' =
     Inr (request_handler stub_archive stub_web stub_parse (Some ''/tiles/'')
            \<lparr>url = ''mbtiles://parks'', kind = 2\<rparr>)"
    using T [where req = "\<lparr>url = ''mbtiles://parks'', kind = 2\<rparr>"]
    by (simp add: startsWith_def)
  have 2: "request_handler stub_archive stub_web stub_parse (Some ''/tiles/'')
        \<lparr>url = ''https://tiles.example.org/tiles.json'', kind = 2\<rparr> = []"
    using T [where req = "\<lparr>url = ''https://tiles.example.org/tiles.json'', kind = 2\<rparr>"]
    by (simp add: startsWith_def)
  have 3: "request_handler stub_archive stub_web stub_parse (Some ''/tiles/'')
        \<lparr>url = ''mbtiles://parks/5/10/12'', kind = 3\<rparr> =
      [Callback None (Some \<lparr>data = Some (Raw ''tile-5-10-12''), modified = None,
                             expires = None, etag = None\<rparr>)]"
    using T [where req = "\<lparr>url = ''mbtiles://parks/5/10/12'', kind = 3\<rparr>"] g1
    by (simp add: startsWith_def)
  have 4: "request_handler stub_archive stub_web stub_parse (Some ''/tiles/'')
        \<lparr>url = ''mbtiles://parks/5/10'', kind = 3\<rparr> =
      [ConsoleError (TypeError ''matches.slice''),
       Callback (Some (TypeError ''matches.slice'')) None]"
    using T [where req = "\<lparr>url = ''mbtiles://parks/5/10'', kind = 3\<rparr>"] g2
    by (simp add: startsWith_def)
  have 5: "request_handler stub_archive stub_web stub_parse (Some ''/tiles/'')
        \<lparr>url = ''https://tiles.example.org/9/9/9.png'', kind = 3\<rparr> =
      getRemoteTile stub_web stub_parse ''https://tiles.example.org/9/9/9.png''"
    using T [where req = "\<lparr>url = ''https://tiles.example.org/9/9/9.png'', kind = 3\<rparr>"]
    by (simp add: startsWith_def)
  have 6: "request_handler stub_archive stub_web stub_parse (Some ''/tiles/'')
        \<lparr>url = ''mbtiles://parks/5/10/12'', kind = 4\<rparr> = []"
    using T [where req = "\<lparr>url = ''mbtiles://parks/5/10/12'', kind = 4\<rparr>"]
    by simp
  from 1 2 3 4 5 6 show ?thesis by blast
qed

section \<open>Properties of the number model\<close>

lemma truthy_iff: "truthy x = (x \<noteq> NaN \<and> x \<noteq> Fin 0)"
  by (cases x) (simp_all add: truthy_def)




lemma Math_max_not_below: "\<not> js_less (Math_max x (Fin 0)) (Fin 0)"
  by (cases x) (auto simp: Math_max_def)

section \<open>Properties of the render orchestrator\<close>

lemmas validate_defs = validate_def check_style_size_def check_center_def check_zoom_def
  check_bounds_def truthy_def Math_abs_def

lemmas stub_defs = stub_viewport_def stub_engine_def failing_engine_def stub_sharp_def

lemmas render_defs = render_def render_executor_def resolve_viewport_def render_callback_def
  rejected_with_def Math_max_def

lemma validate_style_None:
  "validate None w h opts = Some (Error ''style is a required parameter'' [])"
  by (simp add: validate_def check_style_size_def)

lemma render_rejected:
  "validate style w h opts = Some e \<Longrightarrow>
   render gv engine sharp style w h opts = rejected_with e"
  by (simp add: render_def render_executor_def rejected_with_def)

lemma render_executor_ok:
  "validate (Some st) w h opts = None \<Longrightarrow>
   render_executor gv (Some st) w h opts =
     Inr \<lparr>map_tilePath = tilePath opts, loaded_style = st,
          params = \<lparr>p_zoom = fst (resolve_viewport gv w h opts),
                    p_center = snd (resolve_viewport gv w h opts),
                    p_height = h, p_width = w\<rparr>\<rparr>"
  by (simp add: render_executor_def split: prod.splits)

lemma engine_calls_render:
  "render_executor gv style w h opts = Inr c \<Longrightarrow>
   engine_calls (render gv engine sharp style w h opts) = [c]"
  by (simp add: render_def split: callback_result.splits)

lemma engine_calls_validated:
  "validate (Some st) w h opts = None \<Longrightarrow>
   engine_calls (render gv engine sharp (Some st) w h opts) =
     [\<lparr>map_tilePath = tilePath opts, loaded_style = st,
       params = \<lparr>p_zoom = fst (resolve_viewport gv w h opts),
                 p_center = snd (resolve_viewport gv w h opts),
                 p_height = h, p_width = w\<rparr>\<rparr>]"
  by (simp add: engine_calls_render render_executor_ok)

lemma engine_called_valid:
  "engine_calls (render gv engine sharp style w h opts) = [c] \<Longrightarrow>
   validate style w h opts = None \<and> style \<noteq> None"
  by (cases style; cases "validate style w h opts")
     (auto simp: render_rejected rejected_with_def validate_style_None)

lemma engine_call_shape:
  assumes "engine_calls (render gv engine sharp style w h opts) = [c]"
  shows "p_zoom (params c) = fst (resolve_viewport gv w h opts)"
    and "p_center (params c) = snd (resolve_viewport gv w h opts)"
proof -
  from assms have v: "validate style w h opts = None" and "style \<noteq> None"
    using engine_called_valid by blast+
  then obtain st where st: "style = Some st" by blast
  from assms v st have "c = \<lparr>map_tilePath = tilePath opts, loaded_style = st,
       params = \<lparr>p_zoom = fst (resolve_viewport gv w h opts),
                 p_center = snd (resolve_viewport gv w h opts),
                 p_height = h, p_width = w\<rparr>\<rparr>"
    by (simp add: engine_calls_validated)
  then show "p_zoom (params c) = fst (resolve_viewport gv w h opts)"
    and "p_center (params c) = snd (resolve_viewport gv w h opts)"
    by simp_all
qed

text \<open>
  Claim C1, as the code has it. A call that reaches the engine with bounds supplied
  hands over the caller's zoom and center when both are supplied. When either of them
  is missing, both are replaced: the zoom is \<open>Math.max(viewport.zoom - 1, 0)\<close> and the
  center is the library's center, also when the caller supplied one of the two.
\<close>

theorem C1_viewport_resolution:
  "engine_calls (render gv engine sharp style w h opts) = [c] \<Longrightarrow> bounds opts = Some bs \<Longrightarrow>
   (p_zoom (params c), p_center (params c)) =
     (if zoom opts = None \<or> center opts = None
      then (Some (Math_max (js_minus (vp_zoom (gv bs [w, h])) (Fin 1)) (Fin 0)),
            Some (vp_center (gv bs [w, h])))
      else (zoom opts, center opts))"
  by (simp add: engine_call_shape resolve_viewport_def Let_def)

theorem C1_viewport_resolution_witness:
  "engine_calls (render stub_viewport stub_engine stub_sharp (Some ()) (Fin 512) (Fin 512)
       \<lparr>bounds = Some (map Fin [-10, -10, 10, 10]), tilePath = None,
        center = Some [Fin 5, Fin 5], zoom = Some (Fin 3)\<rparr>)
     = [\<lparr>map_tilePath = None, loaded_style = (),
         params = \<lparr>p_zoom = Some (Fin 3), p_center = Some [Fin 5, Fin 5],
                   p_height = Fin 512, p_width = Fin 512\<rparr>\<rparr>]
   \<and> engine_calls (render stub_viewport stub_engine stub_sharp (Some ()) (Fin 512) (Fin 512)
       \<lparr>bounds = Some (map Fin [-10, -10, 10, 10]), tilePath = None,
        center = None, zoom = Some (Fin 3)\<rparr>)
     = [\<lparr>map_tilePath = None, loaded_style = (),
         params = \<lparr>p_zoom = Some (Fin 4), p_center = Some [Fin 0, Fin 0],
                   p_height = Fin 512, p_width = Fin 512\<rparr>\<rparr>]
   \<and> Math_max (js_minus (vp_zoom (stub_viewport (map Fin [-10, -10, 10, 10])
                                       [Fin 512, Fin 512])) (Fin 1)) (Fin 0) = Fin 4
   \<and> vp_center (stub_viewport (map Fin [-10, -10, 10, 10]) [Fin 512, Fin 512])
       = [Fin 0, Fin 0]"
proof -
  have a: "engine_calls (render stub_viewport stub_engine stub_sharp (Some ()) (Fin 512) (Fin 512)
       \<lparr>bounds = Some (map Fin [-10, -10, 10, 10]), tilePath = None,
        center = Some [Fin 5, Fin 5], zoom = Some (Fin 3)\<rparr>)
     = [\<lparr>map_tilePath = None, loaded_style = (),
         params = \<lparr>p_zoom = Some (Fin 3), p_center = Some [Fin 5, Fin 5],
                   p_height = Fin 512, p_width = Fin 512\<rparr>\<rparr>]"
    by (simp add: render_defs validate_defs stub_defs)
  have b: "engine_calls (render stub_viewport stub_engine stub_sharp (Some ()) (Fin 512) (Fin 512)
       \<lparr>bounds = Some (map Fin [-10, -10, 10, 10]), tilePath = None,
        center = None, zoom = Some (Fin 3)\<rparr>)
     = [\<lparr>map_tilePath = None, loaded_style = (),
         params = \<lparr>p_zoom = Some (Fin 4), p_center = Some [Fin 0, Fin 0],
                   p_height = Fin 512, p_width = Fin 512\<rparr>\<rparr>]"
    by (simp add: render_defs validate_defs stub_defs)
  show ?thesis
    using a b C1_viewport_resolution [OF a, of "map Fin [-10, -10, 10, 10]"]
      C1_viewport_resolution [OF b, of "map Fin [-10, -10, 10, 10]"]
    by simp
qed

text \<open>
  Claim C1 as stated fails: with bounds \<open>[-10, -10, 10, 10]\<close>, an explicit center
  \<open>[5, 5]\<close> and no zoom, the engine receives the center derived from the bounds.
\<close>

theorem C1_explicit_center_overridden:
  "engine_calls (render stub_viewport stub_engine stub_sharp (Some ()) (Fin 512) (Fin 512)
       \<lparr>bounds = Some (map Fin [-10, -10, 10, 10]), tilePath = None,
        center = Some [Fin 5, Fin 5], zoom = None\<rparr>)
     = [\<lparr>map_tilePath = None, loaded_style = (),
         params = \<lparr>p_zoom = Some (Fin 4), p_center = Some [Fin 0, Fin 0],
                   p_height = Fin 512, p_width = Fin 512\<rparr>\<rparr>]
   \<and> Some [Fin 0, Fin 0] \<noteq> Some [Fin 5, Fin 5]"
  by (simp add: render_defs validate_defs stub_defs)

text \<open>
  Claim C2 says that an error of the render pass rejects the promise. On a call that
  passes validation and whose render pass fails, the promise stays pending and the
  error is thrown inside the engine's callback, where nothing catches it.
\<close>

theorem C2_engine_error_leaves_promise_pending:
  "render stub_viewport failing_engine stub_sharp (Some ()) (Fin 512) (Fin 512)
       \<lparr>bounds = None, tilePath = None, center = Some [Fin 0, Fin 0], zoom = Some (Fin 1)\<rparr>
     = \<lparr>engine_calls = [\<lparr>map_tilePath = None, loaded_style = (),
         params = \<lparr>p_zoom = Some (Fin 1), p_center = Some [Fin 0, Fin 0],
                   p_height = Fin 512, p_width = Fin 512\<rparr>\<rparr>],
        promise_state = Pending,
        uncaught = [Error ''render failed'' []]\<rparr>"
  by (simp add: render_defs validate_defs stub_defs)

text \<open>The same for every call that reaches the engine and every error of the engine.\<close>

lemma engine_error_never_rejects:
  "render_executor gv style w h opts = Inr c \<Longrightarrow> engine c = Inl err \<Longrightarrow>
   promise_state (render gv engine sharp style w h opts) = Pending \<and>
   uncaught (render gv engine sharp style w h opts) = [err]"
  by (simp add: render_def render_callback_def)

text \<open>
  Claim C9, as the code has it. With a style present, the size check rejects exactly
  the calls whose width or height is zero or \<open>NaN\<close>, before the engine is touched; every
  other width and height, negative ones too, passes it.
\<close>

theorem C9_size_check:
  "style = Some st \<Longrightarrow>
   (if w = Fin 0 \<or> w = NaN \<or> h = Fin 0 \<or> h = NaN
    then render gv engine sharp style w h opts =
           rejected_with (Error ''width and height are required parameters and must be non-zero'' [])
    else check_style_size style w h = None)"
  by (auto simp: render_rejected validate_def check_style_size_def truthy_iff)

theorem C9_size_check_witness:
  "render stub_viewport stub_engine stub_sharp (Some ()) (Fin 0) (Fin 512)
       \<lparr>bounds = None, tilePath = None, center = Some [Fin 0, Fin 0], zoom = Some (Fin 1)\<rparr>
     = rejected_with (Error ''width and height are required parameters and must be non-zero'' [])
   \<and> render stub_viewport stub_engine stub_sharp (Some ()) (Fin 512) NaN
       \<lparr>bounds = None, tilePath = None, center = Some [Fin 0, Fin 0], zoom = Some (Fin 1)\<rparr>
     = rejected_with (Error ''width and height are required parameters and must be non-zero'' [])
   \<and> check_style_size (Some ()) (Fin 512) (Fin (-3)) = None
   \<and> check_style_size (Some ()) PosInf (Fin 512) = None"
  using C9_size_check [of "Some ()" "()" "Fin 0" "Fin 512" stub_viewport stub_engine stub_sharp
      "\<lparr>bounds = None, tilePath = None, center = Some [Fin 0, Fin 0], zoom = Some (Fin 1)\<rparr>"]
    C9_size_check [of "Some ()" "()" "Fin 512" NaN stub_viewport stub_engine stub_sharp
      "\<lparr>bounds = None, tilePath = None, center = Some [Fin 0, Fin 0], zoom = Some (Fin 1)\<rparr>"]
    C9_size_check [of "Some ()" "()" "Fin 512" "Fin (-3)"]
    C9_size_check [of "Some ()" "()" PosInf "Fin 512"]
  by simp

text \<open>
  Claim C9 as stated fails: width \<open>-1\<close> is not strictly positive, yet the call passes
  validation and reaches the engine.
\<close>

theorem C9_negative_size_accepted:
  "validate (Some ()) (Fin (-1)) (Fin 5)
       \<lparr>bounds = None, tilePath = None, center = Some [Fin 0, Fin 0], zoom = Some (Fin 1)\<rparr>
     = None
   \<and> engine_calls (render stub_viewport stub_engine stub_sharp (Some ()) (Fin (-1)) (Fin 5)
       \<lparr>bounds = None, tilePath = None, center = Some [Fin 0, Fin 0], zoom = Some (Fin 1)\<rparr>)
     = [\<lparr>map_tilePath = None, loaded_style = (),
         params = \<lparr>p_zoom = Some (Fin 1), p_center = Some [Fin 0, Fin 0],
                   p_height = Fin 5, p_width = Fin (-1)\<rparr>\<rparr>]"
  by (simp add: render_defs validate_defs stub_defs)

text \<open>
  Claim C10 says that the engine never receives an unresolved viewport. A call with
  neither center, zoom nor bounds passes validation and hands a null zoom and a null
  center to the engine.
\<close>

theorem C10_unresolved_viewport_reaches_engine:
  "engine_calls (render stub_viewport stub_engine stub_sharp (Some ()) (Fin 512) (Fin 512)
       \<lparr>bounds = None, tilePath = None, center = None, zoom = None\<rparr>)
     = [\<lparr>map_tilePath = None, loaded_style = (),
         params = \<lparr>p_zoom = None, p_center = None, p_height = Fin 512, p_width = Fin 512\<rparr>\<rparr>]"
  by (simp add: render_defs validate_defs stub_defs)

text \<open>
  When the caller supplies bounds, or both center and zoom, the viewport that reaches
  the engine is resolved.
\<close>

lemma viewport_resolved_when_supplied:
  "engine_calls (render gv engine sharp style w h opts) = [c] \<Longrightarrow>
   bounds opts \<noteq> None \<or> (center opts \<noteq> None \<and> zoom opts \<noteq> None) \<Longrightarrow>
   p_zoom (params c) \<noteq> None \<and> p_center (params c) \<noteq> None"
  by (auto simp: engine_call_shape resolve_viewport_def Let_def split: option.splits)

text \<open>
  The viewport derived from bounds: the zoom is \<open>Math.max(viewport.zoom - 1, 0)\<close>, which
  is never below zero (it is \<open>NaN\<close> when the library's zoom is), and the center is the
  library's center.
\<close>

lemma derived_viewport:
  "bounds opts = Some bs \<Longrightarrow> zoom opts = None \<or> center opts = None \<Longrightarrow>
   resolve_viewport gv w h opts =
     (Some (Math_max (js_minus (vp_zoom (gv bs [w, h])) (Fin 1)) (Fin 0)),
      Some (vp_center (gv bs [w, h])))"
  by (simp add: resolve_viewport_def Let_def)

lemma derived_zoom_not_below_zero:
  "bounds opts = Some bs \<Longrightarrow> zoom opts = None \<or> center opts = None \<Longrightarrow>
   fst (resolve_viewport gv w h opts) = Some z \<Longrightarrow> \<not> js_less z (Fin 0)"
  using Math_max_not_below by (auto simp: derived_viewport)

subsection \<open>Validation\<close>








lemma validation_messages_distinct:
  "distinct [''style is a required parameter'',
     ''width and height are required parameters and must be non-zero'',
     ''Center must be longitude,latitude.  Invalid value found: '',
     ''Center longitude is outside world bounds (-180 to 180 deg): '',
     ''Center latitude is outside world bounds (-90 to 90 deg): '',
     ''Zoom level is outside supported range (0-22): '',
     ''Bounds must be west,south,east,north.  Invalid value found: '']"
  by simp




end
